theory Spec2Isabelle
  imports Main
begin

section \<open>JavaScript values used by lib/span.js\<close>

text \<open>
  The values that flow through the span code: span names, annotation values, thrown
  values, transaction names and counters. Numbers are integers plus \<open>NaN\<close> (the only
  non-integer number the span code itself can produce, by \<open>undefined + 1\<close> and
  \<open>Date.now() - undefined\<close>). An \<open>Error\<close> instance is its class and its message.
\<close>

datatype errclass = ErrorClass | TypeErrorClass

datatype jsval =
    Undefined
  | Null
  | Bool bool
  | Num int
  | NaN
  | Str string
  | ErrObj errclass string
  | Obj "(string \<times> jsval) list"

text \<open>The outcome of calling a function: \<open>Inl\<close> the thrown value, \<open>Inr\<close> the returned one.\<close>

type_synonym outcome = "jsval + jsval"

text \<open>JavaScript truthiness, as tested by \<open>if (v)\<close>, \<open>!v\<close>, \<open>a || b\<close> and \<open>a && b\<close>.\<close>

fun truthy :: "jsval \<Rightarrow> bool" where
  "truthy Undefined = False"
| "truthy Null = False"
| "truthy (Bool b) = b"
| "truthy (Num n) = (n \<noteq> 0)"
| "truthy NaN = False"
| "truthy (Str s) = (s \<noteq> [])"
| "truthy (ErrObj c m) = True"
| "truthy (Obj kvs) = True"

definition digit_char :: "nat \<Rightarrow> char" where
  "digit_char d = char_of (48 + d)"

fun dec_nat :: "nat \<Rightarrow> string" where
  "dec_nat n = (if n < 10 then [digit_char n] else dec_nat (n div 10) @ [digit_char (n mod 10)])"

declare dec_nat.simps [simp del]

definition dec_int :: "int \<Rightarrow> string" where
  "dec_int i = (if i < 0 then CHR ''-'' # dec_nat (nat (- i)) else dec_nat (nat i))"

definition errclass_name :: "errclass \<Rightarrow> string" where
  "errclass_name c = (case c of ErrorClass \<Rightarrow> ''Error'' | TypeErrorClass \<Rightarrow> ''TypeError'')"

text \<open>String conversion, as done by a template literal and by \<open>'custom-' + v\<close>.\<close>

fun to_string :: "jsval \<Rightarrow> string" where
  "to_string Undefined = ''undefined''"
| "to_string Null = ''null''"
| "to_string (Bool b) = (if b then ''true'' else ''false'')"
| "to_string (Num n) = dec_int n"
| "to_string NaN = ''NaN''"
| "to_string (Str s) = s"
| "to_string (ErrObj c m) = (if m = [] then errclass_name c else errclass_name c @ '': '' @ m)"
| "to_string (Obj kvs) = ''[object Object]''"

text \<open>\<open>v += 1\<close> on a property holding \<open>v\<close>.\<close>

fun plus_one :: "jsval \<Rightarrow> jsval" where
  "plus_one Undefined = NaN"
| "plus_one Null = Num 1"
| "plus_one (Bool b) = Num (if b then 2 else 1)"
| "plus_one (Num n) = Num (n + 1)"
| "plus_one NaN = NaN"
| "plus_one v = Str (to_string v @ ''1'')"

section \<open>Events (lib/event.js) and the process-wide state\<close>

text \<open>
  The native event metadata that \<open>settings.traceTaskId\<close>, \<open>entry.event\<close> and
  \<open>last.event\<close> hold: the causal task identifier shared by a trace, the operation
  identifier of this event and the sample flag read by \<open>getSampleFlag()\<close>.
\<close>

record metadata =
  taskId :: nat
  opId :: nat
  sampleFlag :: bool

text \<open>
  An edge of an event: the operation identifier of the causal predecessor it was
  constructed from, or an Event object pushed onto \<open>edges\<close> by \<open>Span.prototype.exit\<close>.
\<close>

datatype edge = EdgeOp nat | EdgeEvent nat

record event =
  ev_name :: jsval
  ev_type :: string
  ev_event :: metadata
  edges :: "edge list"
  kv :: "string \<rightharpoonup> jsval"
  ev_error :: jsval
  ignore :: bool

record stats =
  totalCreated :: int
  topSpansCreated :: int
  topSpansActive :: int
  topSpansMax :: int
  topSpansExited :: int
  otherSpansActive :: int

text \<open>
  \<open>customTxName\<close> is untyped in the source: any value, or a function. The function is
  called with no argument (\<open>this.customTxName()\<close>; "if the user needs context they need
  to create a closure"), so it is modelled by the outcome of that call.
\<close>

datatype custom_tx = TxValue jsval | TxFunction outcome

record span =
  topSpan :: bool
  doMetrics :: bool
  async_flag :: bool
  spanName :: jsval
  events_internal :: "nat list"
  events_entry :: nat
  events_exit :: nat
  doSample :: bool
  ignoreErrorFn :: "(jsval \<Rightarrow> outcome) option"
  skeleton :: "nat option"
  isSkeleton :: bool
  count :: jsval
  defaultTxName :: jsval
  customTxName :: custom_tx

text \<open>The argument object handed to \<open>ao.reporter.sendNonHttpSpan\<close>.\<close>

record nonhttp_args =
  arg_txname :: jsval
  arg_duration :: jsval
  arg_error :: bool

datatype loglevel = LogError | LogWarn | LogInfo | LogDebug

text \<open>
  The process-wide state the span code reads and writes: the module's \<open>stats\<close>, the
  objects allocated so far (spans and events are referred to by their address, so that
  two references to the same object are equal numbers), \<open>ao.lastEvent\<close> and
  \<open>ao.lastSpan\<close>, the request store, the reporter, the logger and the clock.
\<close>

record world =
  stats :: stats
  lastEvent :: "nat option"
  lastSpan :: "nat option"
  eventHeap :: "nat \<Rightarrow> event"
  nextEvent :: nat
  spanHeap :: "nat \<Rightarrow> span"
  nextSpan :: nat
  nextId :: nat
  storeTopSpan :: "nat option"
  storeContexts :: "nat list"
  nextContext :: nat
  bridgeAvailable :: bool
  reportLog :: "(nat \<times> bool) list"
  bridgeReceived :: "nat list"
  nonHttpReply :: "nonhttp_args \<Rightarrow> jsval"
  nonHttpCalls :: "nonhttp_args list"
  logged :: "(loglevel \<times> string) list"
  clock :: int

definition log_msg :: "loglevel \<Rightarrow> string \<Rightarrow> world \<Rightarrow> world" where
  "log_msg lvl msg w = w\<lparr>logged := logged w @ [(lvl, msg)]\<rparr>"

definition upd_event :: "nat \<Rightarrow> (event \<Rightarrow> event) \<Rightarrow> world \<Rightarrow> world" where
  "upd_event r f w = w\<lparr>eventHeap := (eventHeap w)(r := f (eventHeap w r))\<rparr>"

definition upd_span :: "nat \<Rightarrow> (span \<Rightarrow> span) \<Rightarrow> world \<Rightarrow> world" where
  "upd_span r f w = w\<lparr>spanHeap := (spanHeap w)(r := f (spanHeap w r))\<rparr>"

text \<open>
  Modelled from the spec: the Event class of lib/event.js, which lib/span.js requires
  and which is not among the sources. Spec 4.1: "Construct(name, type,
  causalPredecessor, shouldEdge): produces a new Event whose causal task id is inherited
  from causalPredecessor; if shouldEdge is true the new event's edge list includes the
  predecessor's operation id." The new event gets a fresh operation identifier and the
  predecessor's sample flag, carries no error, is not flagged to skip edging, and its
  annotation mapping starts empty.
\<close>

definition Event_new :: "jsval \<Rightarrow> string \<Rightarrow> metadata \<Rightarrow> jsval \<Rightarrow> world \<Rightarrow> nat \<times> world" where
  "Event_new nm ty pred shouldEdge w =
     (let r = nextEvent w;
          e = \<lparr>ev_name = nm, ev_type = ty,
               ev_event = \<lparr>taskId = taskId pred, opId = nextId w, sampleFlag = sampleFlag pred\<rparr>,
               edges = (if truthy shouldEdge then [EdgeOp (opId pred)] else []),
               kv = Map.empty, ev_error = Undefined, ignore = False\<rparr>
      in (r, w\<lparr>eventHeap := (eventHeap w)(r := e), nextEvent := Suc r, nextId := Suc (nextId w)\<rparr>))"

text \<open>
  Modelled from the spec: \<open>Event.prototype.set\<close> of lib/event.js. Spec 4.1: "Set(data):
  merges key/value pairs into the annotation mapping without reporting." The pairs of
  an object are merged in order; a value that is not an object has no pairs.
\<close>

definition merge_kv :: "jsval \<Rightarrow> (string \<rightharpoonup> jsval) \<Rightarrow> (string \<rightharpoonup> jsval)" where
  "merge_kv data m = (case data of Obj kvs \<Rightarrow> fold (\<lambda>(k, v) m'. m'(k \<mapsto> v)) kvs m | _ \<Rightarrow> m)"

definition Event_set :: "nat \<Rightarrow> jsval \<Rightarrow> world \<Rightarrow> world" where
  "Event_set r data w = upd_event r (\<lambda>e. e\<lparr>kv := merge_kv data (kv e)\<rparr>) w"


text \<open>
  Modelled from the spec: \<open>Event.prototype.sendReport\<close> of lib/event.js and the
  Reporter Bridge's \<open>reportEvent\<close>. Spec 4.1: "Report(extraData): merges extraData into
  the annotation mapping and hands the event to the Reporter Bridge exactly once; fails
  silently (logs, does not throw) if the bridge is unavailable". Glossary: "Sample flag:
  per-trace boolean fixed at root-span creation, determining whether any event is
  actually reported." Every call is recorded in \<open>reportLog\<close>, with the event's address
  and whether the bridge was available. For an event whose sample flag is false the
  call then returns: nothing is merged and nothing is handed over. For a sampled event
  the data is merged and the event is handed to the bridge (\<open>bridgeReceived\<close>), or the
  failure is logged. The spec names no other effect, so the model has none: in
  particular \<open>ao.lastEvent\<close> is left as it is.
\<close>

definition sendReport :: "nat \<Rightarrow> jsval \<Rightarrow> world \<Rightarrow> world" where
  "sendReport r data w =
     (let w0 = w\<lparr>reportLog := reportLog w @ [(r, bridgeAvailable w)]\<rparr>
      in if \<not> sampleFlag (ev_event (eventHeap w0 r)) then w0
         else
           let w1 = Event_set r data w0
           in if bridgeAvailable w1
              then w1\<lparr>bridgeReceived := bridgeReceived w1 @ [r]\<rparr>
              else log_msg LogError ''event report failed'' w1)"

text \<open>
  Modelled from the spec: \<open>ao.addon.Event.makeRandom(doSample)\<close>, which is not among
  the sources. Spec 4.3: "synthesize a fresh random one tagged with the sample
  decision". Fresh identifiers are drawn from the world's counter.
\<close>

definition makeRandom :: "bool \<Rightarrow> world \<Rightarrow> metadata \<times> world" where
  "makeRandom sample w =
     (\<lparr>taskId = nextId w, opId = Suc (nextId w), sampleFlag = sample\<rparr>,
      w\<lparr>nextId := Suc (Suc (nextId w))\<rparr>)"

text \<open>
  Modelled from the spec: the Trace Context Store (\<open>ao.requestStore\<close>), which is not
  among the sources. Spec 6: "createContext(options) -> contextHandle, enter(contextHandle),
  exit(contextHandle), set(key, value)". A context handle is a number; entering pushes it
  on the stack of active contexts and exiting removes it. The operations do not raise.
\<close>

definition createContext :: "bool \<Rightarrow> world \<Rightarrow> nat \<times> world" where
  "createContext newContext w = (nextContext w, w\<lparr>nextContext := Suc (nextContext w)\<rparr>)"

definition store_enter :: "nat \<Rightarrow> world \<Rightarrow> world" where
  "store_enter ctx w = w\<lparr>storeContexts := ctx # storeContexts w\<rparr>"

definition store_exit :: "nat \<Rightarrow> world \<Rightarrow> world" where
  "store_exit ctx w = w\<lparr>storeContexts := remove1 ctx (storeContexts w)\<rparr>"

definition store_set_topSpan :: "nat \<Rightarrow> world \<Rightarrow> world" where
  "store_set_topSpan s w = w\<lparr>storeTopSpan := Some s\<rparr>"

section \<open>Span construction (lib/span.js)\<close>

text \<open>
  The settings object of \<open>new Span(name, settings, data)\<close>. \<open>traceTaskId\<close> is \<open>None\<close>
  when the property is missing; \<open>edge\<close> is \<open>None\<close> when the object has no \<open>edge\<close> key
  (\<open>'edge' in settings\<close> is false) and \<open>Some v\<close> when it has one with value \<open>v\<close>.
\<close>

record span_settings =
  traceTaskId :: "metadata option"
  edge :: "jsval option"

text \<open>
  The settings object of \<open>Span.makeEntrySpan\<close>, as returned by \<open>getTraceSettings()\<close>;
  \<open>ts_edge\<close> is the value of \<open>settings.edge\<close> (\<open>Undefined\<close> when absent).
\<close>

record trace_settings =
  ts_traceTaskId :: "metadata option"
  ts_edge :: jsval
  ts_doSample :: bool
  ts_doMetrics :: bool
  ts_source :: jsval
  ts_rate :: jsval

text \<open>
  \<open>function Span (name, settings, data)\<close>. The result is \<open>Inl\<close> the thrown value or
  \<open>Inr\<close> the address of the new span. The name check comes before \<open>stats.totalCreated\<close>
  is counted and before any event is built; when it throws, the object under construction
  is unreachable and the world is as before. Reading \<open>getSampleFlag\<close> from a missing
  \<open>traceTaskId\<close> is the engine's TypeError.
\<close>

definition Span_new :: "jsval \<Rightarrow> span_settings \<Rightarrow> jsval \<Rightarrow> world \<Rightarrow> (jsval + nat) \<times> world" where
  "Span_new nm settings data w =
     (if \<not> truthy nm then
        (Inl (ErrObj TypeErrorClass (''invalid span name '' @ to_string nm)), w)
      else
        let w1 = w\<lparr>stats := (stats w)\<lparr>totalCreated := totalCreated (stats w) + 1\<rparr>\<rparr>
        in case traceTaskId settings of
             None \<Rightarrow>
               (Inl (ErrObj TypeErrorClass ''Cannot read property getSampleFlag of undefined''), w1)
           | Some md \<Rightarrow>
               let edg = (case edge settings of Some v \<Rightarrow> v | None \<Rightarrow> Bool True);
                   (en, w2) = Event_new nm ''entry'' md edg w1;
                   (ex, w3) = Event_new nm ''exit'' (ev_event (eventHeap w2 en)) (Bool True) w2;
                   w4 = Event_set en data w3;
                   s = nextSpan w4;
                   sp = \<lparr>topSpan = False, doMetrics = False, async_flag = False, spanName = nm,
                         events_internal = [], events_entry = en, events_exit = ex,
                         doSample = sampleFlag md, ignoreErrorFn = None, skeleton = None,
                         isSkeleton = False, count = Undefined, defaultTxName = Undefined,
                         customTxName = TxValue Undefined\<rparr>
               in (Inr s, w4\<lparr>spanHeap := (spanHeap w4)(s := sp), nextSpan := Suc s\<rparr>))"

text \<open>
  \<open>Span.makeEntrySpan\<close>. The settings object passed on to the constructor always has
  an \<open>edge\<close> key. The skeleton is built from the entry event's metadata, without an
  \<open>edge\<close> key and without data; nothing assigns its \<open>count\<close>.
\<close>

definition makeEntrySpan :: "jsval \<Rightarrow> trace_settings \<Rightarrow> jsval \<Rightarrow> world \<Rightarrow> (jsval + nat) \<times> world" where
  "makeEntrySpan nm settings kvpairs w =
     (let w1 = w\<lparr>stats := (stats w)\<lparr>topSpansCreated := topSpansCreated (stats w) + 1\<rparr>\<rparr>;
          (tid, w2) = (case ts_traceTaskId settings of
                         Some md \<Rightarrow> (md, w1)
                       | None \<Rightarrow> makeRandom (ts_doSample settings) w1)
      in case Span_new nm \<lparr>traceTaskId = Some tid, edge = Some (ts_edge settings)\<rparr> kvpairs w2 of
           (Inl e, w3) \<Rightarrow> (Inl e, w3)
         | (Inr s, w3) \<Rightarrow>
             (case (if \<not> doSample (spanHeap w3 s) then
                      (case Span_new (Str ''__skeleton__'')
                              \<lparr>traceTaskId = Some (ev_event (eventHeap w3 (events_entry (spanHeap w3 s)))),
                               edge = None\<rparr> Undefined w3 of
                         (Inl e, w4) \<Rightarrow> (Inl e, w4)
                       | (Inr k, w4) \<Rightarrow>
                           (Inr (),
                            upd_span k (\<lambda>sp. sp\<lparr>isSkeleton := True\<rparr>)
                              (upd_span s (\<lambda>sp. sp\<lparr>skeleton := Some k\<rparr>) w4)))
                    else (Inr (), w3)) of
                (Inl e, w5) \<Rightarrow> (Inl e, w5)
              | (Inr u, w5) \<Rightarrow>
                  let w6 = upd_span s (\<lambda>sp. sp\<lparr>topSpan := True, doMetrics := ts_doMetrics settings,
                              defaultTxName := (if truthy (spanName sp)
                                                then Str (''custom-'' @ to_string (spanName sp))
                                                else Str []),
                              customTxName := TxValue Undefined\<rparr>) w5;
                      w7 = Event_set (events_entry (spanHeap w6 s))
                             (Obj [(''SampleSource'', ts_source settings),
                                   (''SampleRate'', ts_rate settings)]) w6
                  in (Inr s, w7)))"

text \<open>
  \<open>Span.prototype.descend\<close>. \<open>ao.lastEvent\<close> is read first; the sampled path reads
  \<open>last.event\<close> while building the settings object, before the constructor runs, and
  that read is the engine's TypeError when \<open>last\<close> is null. On the unsampled path a top
  span without a skeleton fails on \<open>span.count\<close> in the same way.
\<close>

definition descend :: "nat \<Rightarrow> jsval \<Rightarrow> jsval \<Rightarrow> world \<Rightarrow> (jsval + nat) \<times> world" where
  "descend this nm data w =
     (let last = lastEvent w in
      if \<not> doSample (spanHeap w this) then
        (if topSpan (spanHeap w this) then
           (case skeleton (spanHeap w this) of
              None \<Rightarrow> (Inl (ErrObj TypeErrorClass ''Cannot read property count of undefined''), w)
            | Some k \<Rightarrow> (Inr k, upd_span k (\<lambda>sp. sp\<lparr>count := plus_one (count sp)\<rparr>) w))
         else
           let w1 = (if \<not> isSkeleton (spanHeap w this)
                     then log_msg LogDebug ''expected isSkeleton'' w else w)
           in (Inr this, upd_span this (\<lambda>sp. sp\<lparr>count := plus_one (count sp)\<rparr>) w1))
      else
        (case last of
           None \<Rightarrow> (Inl (ErrObj TypeErrorClass ''Cannot read property event of null''), w)
         | Some l \<Rightarrow> Span_new nm \<lparr>traceTaskId = Some (ev_event (eventHeap w l)), edge = None\<rparr> data w))"

text \<open>The setter of the \<open>async\<close> property.\<close>

definition set_async :: "nat \<Rightarrow> bool \<Rightarrow> world \<Rightarrow> world" where
  "set_async this val w =
     (let w1 = upd_span this (\<lambda>sp. sp\<lparr>async_flag := val\<rparr>) w
      in upd_event (events_entry (spanHeap w1 this))
           (\<lambda>e. e\<lparr>kv := (if val then (kv e)(''Async'' \<mapsto> Bool True) else (kv e)(''Async'' := None))\<rparr>) w1)"

section \<open>Errors and transaction names\<close>

text \<open>\<open>Span.toError\<close>: a string becomes a new Error, an Error is returned as it is,
  anything else gives undefined.\<close>

fun toError :: "jsval \<Rightarrow> jsval" where
  "toError (Str s) = ErrObj ErrorClass s"
| "toError (ErrObj c m) = ErrObj c m"
| "toError v = Undefined"

text \<open>
  \<open>Span.prototype.setExitError\<close>. The ignore function may throw; the handler of the
  surrounding \<open>try\<close> logs and nothing is attached.
\<close>

definition setExitError :: "nat \<Rightarrow> jsval \<Rightarrow> world \<Rightarrow> world" where
  "setExitError this err w =
     (let e = toError err;
          sp = spanHeap w this;
          attach = upd_event (events_exit sp) (\<lambda>x. x\<lparr>ev_error := e\<rparr>) w
      in if truthy e then
           (case ignoreErrorFn sp of
              None \<Rightarrow> attach
            | Some p \<Rightarrow>
                (case p e of
                   Inl thrown \<Rightarrow>
                     log_msg LogError (to_string (spanName sp) @ '' span failed to set exit error'') w
                 | Inr v \<Rightarrow> if \<not> truthy v then attach else w))
         else w)"

text \<open>\<open>Span.prototype.setIgnoreErrorFn\<close>.\<close>

definition setIgnoreErrorFn :: "nat \<Rightarrow> (jsval \<Rightarrow> outcome) \<Rightarrow> world \<Rightarrow> world" where
  "setIgnoreErrorFn this f w =
     (let w1 = (case ignoreErrorFn (spanHeap w this) of
                  Some g \<Rightarrow> log_msg LogWarn (''resetting ignoreErrorFn for '' @ to_string (spanName (spanHeap w this))) w
                | None \<Rightarrow> w)
      in upd_span this (\<lambda>sp. sp\<lparr>ignoreErrorFn := Some f\<rparr>) w1)"

text \<open>
  \<open>Span.prototype.getTransactionName\<close>. \<open>txname\<close> stays undefined when the custom name
  is falsy, is neither a string nor a function, or is a function that throws; a falsy
  \<open>txname\<close> is replaced by the default name.
\<close>

definition getTransactionName :: "nat \<Rightarrow> world \<Rightarrow> jsval \<times> world" where
  "getTransactionName this w =
     (let sp = spanHeap w this;
          (txname, w1) =
            (case customTxName sp of
               TxValue v \<Rightarrow>
                 (if truthy v then (case v of Str x \<Rightarrow> Str x | _ \<Rightarrow> Undefined) else Undefined, w)
             | TxFunction res \<Rightarrow>
                 (case res of
                    Inr v \<Rightarrow> (v, w)
                  | Inl thrown \<Rightarrow>
                      (Undefined, log_msg LogError (''customTxName function '' @ to_string thrown) w)))
      in (if \<not> truthy txname then defaultTxName sp else txname, w1))"

text \<open>
  \<open>Span.sendNonHttpSpan\<close>. The reporter's answer is the world's \<open>nonHttpReply\<close> applied
  to the argument object, which is also recorded in \<open>nonHttpCalls\<close>. \<open>dbSendError\<close>
  is a debounced error logger; its call is recorded as an error line.
\<close>

definition sendNonHttpSpan :: "jsval \<Rightarrow> jsval \<Rightarrow> jsval \<Rightarrow> world \<Rightarrow> jsval \<times> world" where
  "sendNonHttpSpan txname duration err w =
     (let args = \<lparr>arg_txname = txname, arg_duration = duration, arg_error = truthy err\<rparr>;
          finalTxName = nonHttpReply w args;
          w1 = w\<lparr>nonHttpCalls := nonHttpCalls w @ [args]\<rparr>;
          fallback = (if truthy (arg_txname args) then arg_txname args else Str ''unknown'',
                      log_msg LogError (''sendNonHttpSpan() code '' @ to_string finalTxName) w1)
      in case finalTxName of
           Str x \<Rightarrow> if truthy (Str x) then (Str x, w1) else fallback
         | _ \<Rightarrow> fallback)"

section \<open>Entering and exiting a span\<close>

text \<open>\<open>const {Layer, Label} = kv; kv = {Layer, Label}\<close>: the new object has exactly
  the two keys, each with the old value or undefined.\<close>

definition reserved_only :: "(string \<rightharpoonup> jsval) \<Rightarrow> (string \<rightharpoonup> jsval)" where
  "reserved_only m =
     [''Layer'' \<mapsto> (case m ''Layer'' of Some v \<Rightarrow> v | None \<Rightarrow> Undefined),
      ''Label'' \<mapsto> (case m ''Label'' of Some v \<Rightarrow> v | None \<Rightarrow> Undefined)]"

text \<open>
  \<open>Span.prototype.enter\<close>. No modelled operation inside the \<open>try\<close> block raises, so its
  handler, which only logs, has no branch here.
\<close>

definition enter :: "nat \<Rightarrow> jsval \<Rightarrow> world \<Rightarrow> world" where
  "enter this data w =
     (let w1 = (if topSpan (spanHeap w this) then
                  let wa = store_set_topSpan this w;
                      wb = wa\<lparr>stats := (stats wa)\<lparr>topSpansActive := topSpansActive (stats wa) + 1\<rparr>\<rparr>
                  in if topSpansActive (stats wb) > topSpansMax (stats wb)
                     then wb\<lparr>stats := (stats wb)\<lparr>topSpansMax := topSpansActive (stats wb)\<rparr>\<rparr>
                     else wb
                else w\<lparr>stats := (stats w)\<lparr>otherSpansActive := otherSpansActive (stats w) + 1\<rparr>\<rparr>);
          w2 = w1\<lparr>lastSpan := Some this\<rparr>;
          w3 = sendReport (events_entry (spanHeap w2 this)) data w2
      in if isSkeleton (spanHeap w3 this)
         then upd_event (events_entry (spanHeap w3 this)) (\<lambda>e. e\<lparr>kv := reserved_only (kv e)\<rparr>) w3
         else w3)"

text \<open>
  \<open>Span.prototype.exit\<close>. The extra edge is the Event object \<open>ao.lastEvent\<close> itself,
  pushed onto the exit event's \<open>edges\<close>; the comparison \<open>last !== this.events.entry\<close>
  is by identity. After the report a skeleton resets \<open>this.events.entry.kv\<close>.
\<close>

definition exit :: "nat \<Rightarrow> jsval \<Rightarrow> world \<Rightarrow> world" where
  "exit this data w =
     (let ex = events_exit (spanHeap w this);
          w1 = (if topSpan (spanHeap w this)
                then w\<lparr>stats := (stats w)\<lparr>topSpansActive := topSpansActive (stats w) - 1,
                                        topSpansExited := topSpansExited (stats w) + 1\<rparr>\<rparr>
                else w\<lparr>stats := (stats w)\<lparr>otherSpansActive := otherSpansActive (stats w) - 1\<rparr>\<rparr>);
          w2 = (case lastEvent w1 of
                  Some l \<Rightarrow>
                    if l \<noteq> events_entry (spanHeap w1 this) \<and> \<not> ignore (eventHeap w1 ex)
                    then upd_event ex (\<lambda>e. e\<lparr>edges := edges e @ [EdgeEvent l]\<rparr>) w1
                    else w1
                | None \<Rightarrow> log_msg LogDebug ''span.exit - no last event'' w1);
          w3 = sendReport ex data w2
      in if isSkeleton (spanHeap w3 this)
         then upd_event (events_entry (spanHeap w3 this)) (\<lambda>e. e\<lparr>kv := reserved_only (kv e)\<rparr>) w3
         else w3)"

text \<open>\<open>Span.prototype.exitCheckingError\<close>.\<close>

definition exitCheckingError :: "nat \<Rightarrow> jsval \<Rightarrow> jsval \<Rightarrow> world \<Rightarrow> world" where
  "exitCheckingError this err data w = exit this data (setExitError this err w)"

section \<open>Running a function inside a span\<close>

text \<open>
  A function handed to \<open>run\<close>, \<open>runSync\<close> or \<open>runAsync\<close>: its declared number of
  parameters (\<open>fn.length\<close>) and what calling it does. \<open>fn_call f this arg w\<close> is
  \<open>f.call(this, arg)\<close> in world \<open>w\<close>: the outcome and the world it leaves. A callback
  takes its argument list; the wrapper that \<open>runAsync\<close> passes takes the user's callback
  and an optional handler and gives the bound callback.
\<close>

type_synonym callback = "jsval list \<Rightarrow> world \<Rightarrow> outcome \<times> world"

type_synonym wrapper = "callback \<Rightarrow> callback option \<Rightarrow> callback"

record jsfun =
  fn_length :: nat
  fn_call :: "nat \<Rightarrow> wrapper option \<Rightarrow> world \<Rightarrow> outcome \<times> world"

text \<open>
  The block shared by the \<open>finally\<close> clause of \<open>runSync\<close> and by the bound callback of
  \<open>runAsync\<close>: for a top span with metrics, the transaction name is computed, the
  elapsed microseconds are sent to the reporter and the final name becomes the
  \<open>TransactionName\<close> of \<open>kvpairs\<close>. \<open>startTime\<close> is \<open>None\<close> while the variable is
  undefined, and the elapsed time is then \<open>NaN\<close>. \<open>msg\<close> is the start of the warning
  logged when the two names differ, the only difference between the two copies.
\<close>

definition finish_metrics :: "string \<Rightarrow> nat \<Rightarrow> int option \<Rightarrow> jsval \<Rightarrow> world \<Rightarrow> (string \<times> jsval) list \<times> world" where
  "finish_metrics msg this startTime err w =
     (if topSpan (spanHeap w this) \<and> doMetrics (spanHeap w this) then
        let (txname, w1) = getTransactionName this w;
            et = (case startTime of Some t \<Rightarrow> Num ((clock w1 - t) * 1000) | None \<Rightarrow> NaN);
            (finaltxname, w2) = sendNonHttpSpan txname et err w1;
            w3 = (if txname \<noteq> finaltxname
                  then log_msg LogWarn (msg @ to_string txname @ '' !== '' @ to_string finaltxname) w2
                  else w2)
        in ([(''TransactionName'', finaltxname)], w3)
      else ([], w))"

text \<open>
  The part of \<open>Span.prototype.runSync\<close> before the wrapped function is called: for a
  top span the start time and a new context, then \<open>this.enter()\<close>. It gives the context
  handle, the start time and the world in which the function is called.
\<close>

definition runSync_enter :: "nat \<Rightarrow> world \<Rightarrow> nat option \<times> int option \<times> world" where
  "runSync_enter this w =
     (let (ctx, startTime, w1) =
            (if topSpan (spanHeap w this) then
               let st = (if doMetrics (spanHeap w this) then Some (clock w) else None);
                   (c, wa) = createContext True w
               in (Some c, st, store_enter c wa)
             else (None, None, w))
      in (ctx, startTime, enter this Undefined w1))"

text \<open>
  \<open>Span.prototype.runSync\<close>: \<open>try { return fn.call(this) } catch (err) { error = err;
  this.setExitError(err); throw err } finally { ... this.exit(kvpairs); ... }\<close>.
  The outcome of the function is the outcome of \<open>runSync\<close>.
\<close>

definition runSync :: "nat \<Rightarrow> jsfun \<Rightarrow> world \<Rightarrow> outcome \<times> world" where
  "runSync this fn w =
     (let (ctx, startTime, w2) = runSync_enter this w;
          (res, w3) = fn_call fn this None w2;
          (err, w4) = (case res of
                         Inl thrown \<Rightarrow> (thrown, setExitError this thrown w3)
                       | Inr v \<Rightarrow> (Undefined, w3));
          (kvpairs, w5) = finish_metrics ''Span.runAsync txname error: '' this startTime err w4;
          w6 = exit this (Obj kvpairs) w5;
          w7 = (case ctx of Some c \<Rightarrow> store_exit c w6 | None \<Rightarrow> w6)
      in (res, w7))"

text \<open>
  Modelled from the spec: \<open>ao.bind\<close>, which is not among the sources, gives a function
  that behaves as the function it is given (spec 4.5: "The bind helper, when its wrapped
  callback eventually fires ..."). The function that \<open>runAsync\<close> binds: \<open>err\<close> is the first
  argument; with a handler, the handler runs instead of the exit; then the user's
  callback is called with the same arguments, unless the handler threw.
\<close>

definition bound_callback :: "nat \<Rightarrow> int option \<Rightarrow> callback \<Rightarrow> callback option \<Rightarrow> callback" where
  "bound_callback span startTime cb handler args w =
     (let err = (case args of [] \<Rightarrow> Undefined | a # rest \<Rightarrow> a) in
      case handler of
        Some h \<Rightarrow>
          (case h args w of
             (Inl thrown, w1) \<Rightarrow> (Inl thrown, w1)
           | (Inr v, w1) \<Rightarrow> cb args w1)
      | None \<Rightarrow>
          let (kvpairs, w1) = finish_metrics ''Span.runAsync txname mismatch: '' span startTime err w;
              w2 = exitCheckingError span err (Obj kvpairs) w1
          in cb args w2)"

text \<open>
  \<open>Span.prototype.runAsync\<close>. The context is created for every span; a throw of the
  wrapped function leaves \<open>runAsync\<close> at once, before the context is exited.
\<close>

definition runAsync :: "nat \<Rightarrow> jsfun \<Rightarrow> world \<Rightarrow> outcome \<times> world" where
  "runAsync this fn w =
     (let w0 = set_async this True w;
          (c, wa) = createContext (topSpan (spanHeap w0 this)) w0;
          w1 = store_enter c wa;
          startTime = (if doMetrics (spanHeap w1 this) then Some (clock w1) else None);
          w2 = enter this Undefined w1
      in case fn_call fn this (Some (bound_callback this startTime)) w2 of
           (Inl thrown, w3) \<Rightarrow> (Inl thrown, w3)
         | (Inr ret, w3) \<Rightarrow> (Inr ret, store_exit c w3))"

text \<open>\<open>Span.prototype.run\<close>: \<open>fn.length === 1 ? this.runAsync(fn) : this.runSync(fn)\<close>.\<close>

definition run :: "nat \<Rightarrow> jsfun \<Rightarrow> world \<Rightarrow> outcome \<times> world" where
  "run this fn w = (if fn_length fn = 1 then runAsync this fn w else runSync this fn w)"

section \<open>Example worlds and functions\<close>

text \<open>A world in which nothing has been allocated yet: every address holds a blank
  object, no event is active, the bridge is up and answers every transaction with the
  code \<open>-1\<close>.\<close>

definition blank_event :: event where
  "blank_event = \<lparr>ev_name = Undefined, ev_type = [],
                   ev_event = \<lparr>taskId = 0, opId = 0, sampleFlag = False\<rparr>,
                   edges = [], kv = Map.empty, ev_error = Undefined, ignore = False\<rparr>"

definition blank_span :: span where
  "blank_span = \<lparr>topSpan = False, doMetrics = False, async_flag = False, spanName = Undefined,
                  events_internal = [], events_entry = 0, events_exit = 0, doSample = False,
                  ignoreErrorFn = None, skeleton = None, isSkeleton = False, count = Undefined,
                  defaultTxName = Undefined, customTxName = TxValue Undefined\<rparr>"

definition reply_code :: "nonhttp_args \<Rightarrow> jsval" where
  "reply_code a = Num (- 1)"

definition reply_final :: "nonhttp_args \<Rightarrow> jsval" where
  "reply_final a = Str ''final''"

definition world0 :: world where
  "world0 = \<lparr>stats = \<lparr>totalCreated = 0, topSpansCreated = 0, topSpansActive = 0,
                       topSpansMax = 0, topSpansExited = 0, otherSpansActive = 0\<rparr>,
             lastEvent = None, lastSpan = None,
             eventHeap = (\<lambda>r. blank_event), nextEvent = 0,
             spanHeap = (\<lambda>r. blank_span), nextSpan = 0, nextId = 1,
             storeTopSpan = None, storeContexts = [], nextContext = 0,
             bridgeAvailable = True, reportLog = [], bridgeReceived = [],
             nonHttpReply = reply_code, nonHttpCalls = [], logged = [], clock = 0\<rparr>"

text \<open>The same world with a reporter that answers every transaction with the name
  \<open>final\<close>.\<close>

definition world_final :: world where
  "world_final = world0\<lparr>nonHttpReply := reply_final\<rparr>"

text \<open>Settings of a new trace without inbound context, sampled or not.\<close>

definition new_trace :: "bool \<Rightarrow> trace_settings" where
  "new_trace sample = \<lparr>ts_traceTaskId = None, ts_edge = Bool False, ts_doSample = sample,
                        ts_doMetrics = True, ts_source = Num 1, ts_rate = Num 1000000\<rparr>"

text \<open>Whether a trace built from the settings is sampled: the flag of the inbound
  metadata, or the sample decision when there is none.\<close>

definition settings_sampled :: "trace_settings \<Rightarrow> bool" where
  "settings_sampled st = (case ts_traceTaskId st of Some md \<Rightarrow> sampleFlag md | None \<Rightarrow> ts_doSample st)"

text \<open>The world after \<open>Span.makeEntrySpan('http', settings, undefined)\<close> in \<open>world0\<close>;
  the top span is at address 0.\<close>

definition http_world :: "bool \<Rightarrow> world" where
  "http_world sample = snd (makeEntrySpan (Str ''http'') (new_trace sample) Undefined world0)"

text \<open>The assignment \<open>span.customTxName = c\<close>.\<close>

definition setCustomTxName :: "nat \<Rightarrow> custom_tx \<Rightarrow> world \<Rightarrow> world" where
  "setCustomTxName this c w = upd_span this (\<lambda>sp. sp\<lparr>customTxName := c\<rparr>) w"

text \<open>\<open>function () { throw v }\<close> and \<open>function () { return v }\<close>, and a function of one
  parameter that returns without using it.\<close>

definition fn_throw :: "jsval \<Rightarrow> jsfun" where
  "fn_throw v = \<lparr>fn_length = 0, fn_call = (\<lambda>this arg w. (Inl v, w))\<rparr>"

definition fn_return :: "jsval \<Rightarrow> jsfun" where
  "fn_return v = \<lparr>fn_length = 0, fn_call = (\<lambda>this arg w. (Inr v, w))\<rparr>"

definition fn_one_param :: "jsval \<Rightarrow> jsfun" where
  "fn_one_param v = \<lparr>fn_length = 1, fn_call = (\<lambda>this arg w. (Inr v, w))\<rparr>"

text \<open>An ignore function that ignores every error: \<open>function (err) { return true }\<close>.\<close>

definition ignore_all :: "jsval \<Rightarrow> outcome" where
  "ignore_all e = Inr (Bool True)"

section \<open>What the operations leave unchanged\<close>

lemmas world_defs = world0_def new_trace_def http_world_def blank_span_def blank_event_def

lemmas build_defs = makeEntrySpan_def Span_new_def Event_new_def Event_set_def makeRandom_def
  upd_span_def upd_event_def merge_kv_def

lemma upd_event_kv_frame:
  "edges (eventHeap (upd_event r (\<lambda>e. e\<lparr>kv := g e\<rparr>) w) x) = edges (eventHeap w x)"
  "ev_error (eventHeap (upd_event r (\<lambda>e. e\<lparr>kv := g e\<rparr>) w) x) = ev_error (eventHeap w x)"
  "ignore (eventHeap (upd_event r (\<lambda>e. e\<lparr>kv := g e\<rparr>) w) x) = ignore (eventHeap w x)"
  "ev_event (eventHeap (upd_event r (\<lambda>e. e\<lparr>kv := g e\<rparr>) w) x) = ev_event (eventHeap w x)"
  "kv (eventHeap (upd_event r (\<lambda>e. e\<lparr>kv := g e\<rparr>) w) x) =
     (if x = r then g (eventHeap w r) else kv (eventHeap w x))"
  by (simp_all add: upd_event_def)

lemma upd_event_edges_frame:
  "ev_error (eventHeap (upd_event r (\<lambda>e. e\<lparr>edges := g e\<rparr>) w) x) = ev_error (eventHeap w x)"
  "ignore (eventHeap (upd_event r (\<lambda>e. e\<lparr>edges := g e\<rparr>) w) x) = ignore (eventHeap w x)"
  "kv (eventHeap (upd_event r (\<lambda>e. e\<lparr>edges := g e\<rparr>) w) x) = kv (eventHeap w x)"
  "ev_event (eventHeap (upd_event r (\<lambda>e. e\<lparr>edges := g e\<rparr>) w) x) = ev_event (eventHeap w x)"
  "edges (eventHeap (upd_event r (\<lambda>e. e\<lparr>edges := g e\<rparr>) w) x) =
     (if x = r then g (eventHeap w r) else edges (eventHeap w x))"
  by (simp_all add: upd_event_def)

lemma upd_event_frame:
  "spanHeap (upd_event r f w) = spanHeap w"
  "reportLog (upd_event r f w) = reportLog w"
  "bridgeAvailable (upd_event r f w) = bridgeAvailable w"
  "lastEvent (upd_event r f w) = lastEvent w"
  by (simp_all add: upd_event_def)

lemma log_msg_frame:
  "spanHeap (log_msg l m w) = spanHeap w"
  "eventHeap (log_msg l m w) = eventHeap w"
  "reportLog (log_msg l m w) = reportLog w"
  "bridgeAvailable (log_msg l m w) = bridgeAvailable w"
  "lastEvent (log_msg l m w) = lastEvent w"
  by (simp_all add: log_msg_def)

lemma sendReport_frame:
  "reportLog (sendReport r d w) = reportLog w @ [(r, bridgeAvailable w)]"
  "spanHeap (sendReport r d w) = spanHeap w"
  "bridgeAvailable (sendReport r d w) = bridgeAvailable w"
  "lastEvent (sendReport r d w) = lastEvent w"
  "edges (eventHeap (sendReport r d w) x) = edges (eventHeap w x)"
  "ev_error (eventHeap (sendReport r d w) x) = ev_error (eventHeap w x)"
  "ignore (eventHeap (sendReport r d w) x) = ignore (eventHeap w x)"
  "ev_event (eventHeap (sendReport r d w) x) = ev_event (eventHeap w x)"
  "kv (eventHeap (sendReport r d w) x) =
     (if x = r \<and> sampleFlag (ev_event (eventHeap w r))
      then merge_kv d (kv (eventHeap w r)) else kv (eventHeap w x))"
  by (simp_all add: sendReport_def Event_set_def Let_def upd_event_def log_msg_def)

lemma setExitError_frame:
  "reportLog (setExitError this err w) = reportLog w"
  "spanHeap (setExitError this err w) = spanHeap w"
  "bridgeAvailable (setExitError this err w) = bridgeAvailable w"
  "lastEvent (setExitError this err w) = lastEvent w"
  by (simp_all add: setExitError_def upd_event_def log_msg_def Let_def
        split: option.splits sum.splits)

lemma setExitError_ev_error:
  "ev_error (eventHeap (setExitError this err w) (events_exit (spanHeap w this))) =
     (if truthy (toError err)
         \<and> (case ignoreErrorFn (spanHeap w this) of
               None \<Rightarrow> True
             | Some p \<Rightarrow> (case p (toError err) of Inr v \<Rightarrow> \<not> truthy v | Inl thrown \<Rightarrow> False))
      then toError err
      else ev_error (eventHeap w (events_exit (spanHeap w this))))"
  by (simp add: setExitError_def upd_event_def log_msg_def Let_def
        split: option.splits sum.splits)

lemma getTransactionName_frame:
  "reportLog (snd (getTransactionName this w)) = reportLog w"
  "spanHeap (snd (getTransactionName this w)) = spanHeap w"
  "eventHeap (snd (getTransactionName this w)) = eventHeap w"
  "bridgeAvailable (snd (getTransactionName this w)) = bridgeAvailable w"
  by (simp_all add: getTransactionName_def log_msg_def Let_def
        split: custom_tx.splits sum.splits prod.splits)

lemma sendNonHttpSpan_frame:
  "reportLog (snd (sendNonHttpSpan t d e w)) = reportLog w"
  "spanHeap (snd (sendNonHttpSpan t d e w)) = spanHeap w"
  "eventHeap (snd (sendNonHttpSpan t d e w)) = eventHeap w"
  "bridgeAvailable (snd (sendNonHttpSpan t d e w)) = bridgeAvailable w"
  by (simp_all add: sendNonHttpSpan_def log_msg_def Let_def split: jsval.splits)

lemma finish_metrics_frame:
  "reportLog (snd (finish_metrics msg this st err w)) = reportLog w"
  "spanHeap (snd (finish_metrics msg this st err w)) = spanHeap w"
  "eventHeap (snd (finish_metrics msg this st err w)) = eventHeap w"
  "bridgeAvailable (snd (finish_metrics msg this st err w)) = bridgeAvailable w"
  by (simp_all add: finish_metrics_def log_msg_def Let_def case_prod_beta
        getTransactionName_frame sendNonHttpSpan_frame)

lemma store_exit_frame:
  "reportLog (store_exit c w) = reportLog w"
  "eventHeap (store_exit c w) = eventHeap w"
  "spanHeap (store_exit c w) = spanHeap w"
  by (simp_all add: store_exit_def)

lemma exit_reportLog:
  "reportLog (exit this data w) = reportLog w @ [(events_exit (spanHeap w this), bridgeAvailable w)]"
  by (cases "lastEvent w")
     (simp_all add: exit_def Let_def sendReport_frame upd_event_frame log_msg_frame)

lemma exit_edges:
  "edges (eventHeap (exit this data w) (events_exit (spanHeap w this))) =
     edges (eventHeap w (events_exit (spanHeap w this))) @
       (case lastEvent w of
          Some l \<Rightarrow> if l \<noteq> events_entry (spanHeap w this)
                       \<and> \<not> ignore (eventHeap w (events_exit (spanHeap w this)))
                    then [EdgeEvent l] else []
        | None \<Rightarrow> [])"
  by (cases "lastEvent w")
     (simp_all add: exit_def Let_def sendReport_frame upd_event_frame upd_event_kv_frame
        upd_event_edges_frame log_msg_frame)

lemma exit_ev_error: "ev_error (eventHeap (exit this data w) r) = ev_error (eventHeap w r)"
  by (cases "lastEvent w")
     (simp_all add: exit_def Let_def sendReport_frame upd_event_frame upd_event_kv_frame
        upd_event_edges_frame log_msg_frame)


lemma enter_frame:
  "reportLog (enter this data w) = reportLog w @ [(events_entry (spanHeap w this), bridgeAvailable w)]"
  "spanHeap (enter this data w) = spanHeap w"
  "lastEvent (enter this data w) = lastEvent w"
  "bridgeAvailable (enter this data w) = bridgeAvailable w"
  "edges (eventHeap (enter this data w) x) = edges (eventHeap w x)"
  "ev_error (eventHeap (enter this data w) x) = ev_error (eventHeap w x)"
  "ignore (eventHeap (enter this data w) x) = ignore (eventHeap w x)"
  "ev_event (eventHeap (enter this data w) x) = ev_event (eventHeap w x)"
  "x \<noteq> events_entry (spanHeap w this) \<Longrightarrow> kv (eventHeap (enter this data w) x) = kv (eventHeap w x)"
  by (simp_all add: enter_def Let_def store_set_topSpan_def sendReport_frame upd_event_frame
        upd_event_kv_frame)

lemma runSync_enter_frame:
  "reportLog (snd (snd (runSync_enter this w))) =
     reportLog w @ [(events_entry (spanHeap w this), bridgeAvailable w)]"
  "spanHeap (snd (snd (runSync_enter this w))) = spanHeap w"
  "ev_error (eventHeap (snd (snd (runSync_enter this w))) r) = ev_error (eventHeap w r)"
  by (simp_all add: runSync_enter_def enter_frame createContext_def store_enter_def Let_def
        case_prod_beta)


section \<open>The skeleton's annotations\<close>






section \<open>Construction and descent\<close>

lemma Span_new_ok:
  assumes "truthy nm" "traceTaskId st \<noteq> None"
  shows "fst (Span_new nm st d w) = Inr (nextSpan w)"
    and "nextSpan (snd (Span_new nm st d w)) = Suc (nextSpan w)"
    and "spanHeap (snd (Span_new nm st d w)) =
          (spanHeap w)(nextSpan w :=
             \<lparr>topSpan = False, doMetrics = False, async_flag = False, spanName = nm,
              events_internal = [], events_entry = nextEvent w, events_exit = Suc (nextEvent w),
              doSample = sampleFlag (the (traceTaskId st)), ignoreErrorFn = None, skeleton = None,
              isSkeleton = False, count = Undefined, defaultTxName = Undefined,
              customTxName = TxValue Undefined\<rparr>)"
    and "sampleFlag (ev_event (eventHeap (snd (Span_new nm st d w)) (nextEvent w))) =
           sampleFlag (the (traceTaskId st))"
    and "nextEvent (snd (Span_new nm st d w)) = Suc (Suc (nextEvent w))"
  using assms
  by (auto simp add: Span_new_def Let_def Event_new_def Event_set_def upd_event_def case_prod_beta)

lemma makeEntrySpan_falsy:
  "\<not> truthy nm \<Longrightarrow>
     fst (makeEntrySpan nm st kvp w) =
       Inl (ErrObj TypeErrorClass (''invalid span name '' @ to_string nm))"
  by (simp add: makeEntrySpan_def Span_new_def Let_def case_prod_beta split: option.splits)

lemmas makeEntrySpan_unfold = makeEntrySpan_def Let_def case_prod_beta Span_new_ok makeRandom_def
  upd_span_def Event_set_def upd_event_def settings_sampled_def

lemma makeEntrySpan_truthy:
  assumes "truthy nm"
  shows "fst (makeEntrySpan nm st kvp w) = Inr (nextSpan w)"
    and "topSpan (spanHeap (snd (makeEntrySpan nm st kvp w)) (nextSpan w))"
    and "doSample (spanHeap (snd (makeEntrySpan nm st kvp w)) (nextSpan w)) = settings_sampled st"
    and "defaultTxName (spanHeap (snd (makeEntrySpan nm st kvp w)) (nextSpan w)) =
           Str (''custom-'' @ to_string nm)"
    and "customTxName (spanHeap (snd (makeEntrySpan nm st kvp w)) (nextSpan w)) = TxValue Undefined"
    and "skeleton (spanHeap (snd (makeEntrySpan nm st kvp w)) (nextSpan w)) =
           (if settings_sampled st then None else Some (Suc (nextSpan w)))"
proof -
  show "fst (makeEntrySpan nm st kvp w) = Inr (nextSpan w)"
    using assms by (cases "ts_traceTaskId st") (simp_all add: makeEntrySpan_unfold)
  show "topSpan (spanHeap (snd (makeEntrySpan nm st kvp w)) (nextSpan w))"
    using assms by (cases "ts_traceTaskId st") (simp_all add: makeEntrySpan_unfold)
  show "doSample (spanHeap (snd (makeEntrySpan nm st kvp w)) (nextSpan w)) = settings_sampled st"
    using assms by (cases "ts_traceTaskId st") (simp_all add: makeEntrySpan_unfold)
  show "defaultTxName (spanHeap (snd (makeEntrySpan nm st kvp w)) (nextSpan w)) =
          Str (''custom-'' @ to_string nm)"
    using assms by (cases "ts_traceTaskId st") (simp_all add: makeEntrySpan_unfold)
  show "customTxName (spanHeap (snd (makeEntrySpan nm st kvp w)) (nextSpan w)) = TxValue Undefined"
    using assms by (cases "ts_traceTaskId st") (simp_all add: makeEntrySpan_unfold)
  show "skeleton (spanHeap (snd (makeEntrySpan nm st kvp w)) (nextSpan w)) =
          (if settings_sampled st then None else Some (Suc (nextSpan w)))"
    using assms by (cases "ts_traceTaskId st") (simp_all add: makeEntrySpan_unfold)
qed

lemma makeEntrySpan_skeleton:
  assumes "truthy nm" "\<not> settings_sampled st"
  shows "isSkeleton (spanHeap (snd (makeEntrySpan nm st kvp w)) (Suc (nextSpan w)))"
    and "\<not> topSpan (spanHeap (snd (makeEntrySpan nm st kvp w)) (Suc (nextSpan w)))"
    and "\<not> doSample (spanHeap (snd (makeEntrySpan nm st kvp w)) (Suc (nextSpan w)))"
    and "count (spanHeap (snd (makeEntrySpan nm st kvp w)) (Suc (nextSpan w))) = Undefined"
proof -
  show "isSkeleton (spanHeap (snd (makeEntrySpan nm st kvp w)) (Suc (nextSpan w)))"
    using assms by (cases "ts_traceTaskId st") (simp_all add: makeEntrySpan_unfold)
  show "\<not> topSpan (spanHeap (snd (makeEntrySpan nm st kvp w)) (Suc (nextSpan w)))"
    using assms by (cases "ts_traceTaskId st") (simp_all add: makeEntrySpan_unfold)
  show "\<not> doSample (spanHeap (snd (makeEntrySpan nm st kvp w)) (Suc (nextSpan w)))"
    using assms by (cases "ts_traceTaskId st") (simp_all add: makeEntrySpan_unfold)
  show "count (spanHeap (snd (makeEntrySpan nm st kvp w)) (Suc (nextSpan w))) = Undefined"
    using assms by (cases "ts_traceTaskId st") (simp_all add: makeEntrySpan_unfold)
qed

lemma descend_from_unsampled_top:
  assumes "\<not> doSample (spanHeap w s)" "topSpan (spanHeap w s)" "skeleton (spanHeap w s) = Some k"
  shows "descend s n d w = (Inr k, upd_span k (\<lambda>sp. sp\<lparr>count := plus_one (count sp)\<rparr>) w)"
  using assms by (simp add: descend_def)

lemma descend_from_skeleton:
  assumes "\<not> doSample (spanHeap w s)" "\<not> topSpan (spanHeap w s)" "isSkeleton (spanHeap w s)"
  shows "descend s n d w = (Inr s, upd_span s (\<lambda>sp. sp\<lparr>count := plus_one (count sp)\<rparr>) w)"
  using assms by (simp add: descend_def)

lemma upd_count_flags:
  "doSample (spanHeap (upd_span k (\<lambda>sp. sp\<lparr>count := c sp\<rparr>) w) s) = doSample (spanHeap w s)"
  "topSpan (spanHeap (upd_span k (\<lambda>sp. sp\<lparr>count := c sp\<rparr>) w) s) = topSpan (spanHeap w s)"
  "isSkeleton (spanHeap (upd_span k (\<lambda>sp. sp\<lparr>count := c sp\<rparr>) w) s) = isSkeleton (spanHeap w s)"
  "skeleton (spanHeap (upd_span k (\<lambda>sp. sp\<lparr>count := c sp\<rparr>) w) s) = skeleton (spanHeap w s)"
  "count (spanHeap (upd_span k (\<lambda>sp. sp\<lparr>count := c sp\<rparr>) w) k) = c (spanHeap w k)"
  by (simp_all add: upd_span_def)

text \<open>
  The top span of an unsampled trace and three nested descents from it. Each descent
  gives the skeleton, whose \<open>count\<close> starts undefined and is therefore \<open>NaN\<close> after the
  increments.
\<close>

lemma unsampled_descend_chain:
  fixes w :: world and nm kvp :: jsval and st :: trace_settings
  assumes "truthy nm" "\<not> settings_sampled st"
  defines "root \<equiv> nextSpan w" and "k \<equiv> Suc (nextSpan w)"
  defines "w1 \<equiv> snd (makeEntrySpan nm st kvp w)"
  defines "bump \<equiv> upd_span k (\<lambda>sp. sp\<lparr>count := plus_one (count sp)\<rparr>)"
  shows "makeEntrySpan nm st kvp w = (Inr root, w1)"
    and "skeleton (spanHeap w1 root) = Some k"
    and "isSkeleton (spanHeap w1 k)"
    and "descend root na da w1 = (Inr k, bump w1)"
    and "descend k nb db (bump w1) = (Inr k, bump (bump w1))"
    and "descend k nc dc (bump (bump w1)) = (Inr k, bump (bump (bump w1)))"
    and "count (spanHeap (bump (bump (bump w1))) k) = NaN"
proof -
  show m: "makeEntrySpan nm st kvp w = (Inr root, w1)"
    using makeEntrySpan_truthy(1)[OF assms(1), of st kvp w]
    by (simp add: w1_def root_def prod_eq_iff)
  have rt: "\<not> doSample (spanHeap w1 root)" "topSpan (spanHeap w1 root)"
    using makeEntrySpan_truthy(2,3)[OF assms(1), of st kvp w] assms(2)
    by (simp_all add: w1_def root_def)
  show sk: "skeleton (spanHeap w1 root) = Some k"
    using makeEntrySpan_truthy(6)[OF assms(1), of st kvp w] assms(2)
    by (simp add: w1_def root_def k_def)
  have fl: "\<not> doSample (spanHeap w1 k)" "\<not> topSpan (spanHeap w1 k)"
    and c0: "count (spanHeap w1 k) = Undefined"
    using makeEntrySpan_skeleton(2,3,4)[OF assms(1,2), of kvp w] by (simp_all add: w1_def k_def)
  show isk: "isSkeleton (spanHeap w1 k)"
    using makeEntrySpan_skeleton(1)[OF assms(1,2), of kvp w] by (simp add: w1_def k_def)
  show "descend root na da w1 = (Inr k, bump w1)"
    unfolding bump_def by (rule descend_from_unsampled_top[OF rt sk])
  show "descend k nb db (bump w1) = (Inr k, bump (bump w1))"
    unfolding bump_def by (rule descend_from_skeleton) (simp_all add: upd_count_flags fl isk)
  show "descend k nc dc (bump (bump w1)) = (Inr k, bump (bump (bump w1)))"
    unfolding bump_def by (rule descend_from_skeleton) (simp_all add: upd_count_flags fl isk)
  show "count (spanHeap (bump (bump (bump w1))) k) = NaN"
    unfolding bump_def by (simp add: upd_count_flags c0)
qed

section \<open>The wrapped function throws\<close>

lemma runSync_throw:
  assumes "fn_call fn this None (snd (snd (runSync_enter this w))) = (Inl thrown, w3)"
  shows "fst (runSync this fn w) = Inl thrown"
    and "ev_error (eventHeap (snd (runSync this fn w)) (events_exit (spanHeap w3 this))) =
           (if truthy (toError thrown)
               \<and> (case ignoreErrorFn (spanHeap w3 this) of
                     None \<Rightarrow> True
                   | Some p \<Rightarrow> (case p (toError thrown) of
                                  Inr v \<Rightarrow> \<not> truthy v | Inl e \<Rightarrow> False))
            then toError thrown
            else ev_error (eventHeap w3 (events_exit (spanHeap w3 this))))"
  using assms
  by (simp_all add: runSync_def Let_def case_prod_beta store_exit_frame exit_ev_error
        finish_metrics_frame setExitError_ev_error split: option.splits)

lemma fn_throw_call: "fn_call (fn_throw v) this arg w = (Inl v, w)"
  by (simp add: fn_throw_def)

lemma setIgnoreErrorFn_frame:
  "spanHeap (setIgnoreErrorFn s f w) = (spanHeap w)(s := (spanHeap w s)\<lparr>ignoreErrorFn := Some f\<rparr>)"
  "eventHeap (setIgnoreErrorFn s f w) = eventHeap w"
  by (simp_all add: setIgnoreErrorFn_def upd_span_def log_msg_def split: option.splits)

section \<open>The example traces\<close>

lemma http_world_sampled_span:
  "doSample (spanHeap (http_world True) 0)"
  "topSpan (spanHeap (http_world True) 0)"
  "events_entry (spanHeap (http_world True) 0) = 0"
  "events_exit (spanHeap (http_world True) 0) = Suc 0"
  "defaultTxName (spanHeap (http_world True) 0) = Str ''custom-http''"
  "customTxName (spanHeap (http_world True) 0) = TxValue Undefined"
  "ignoreErrorFn (spanHeap (http_world True) 0) = None"
  "lastEvent (http_world True) = None"
  "bridgeAvailable (http_world True)"
  "reportLog (http_world True) = []"
  "ev_error (eventHeap (http_world True) (Suc 0)) = Undefined"
  "edges (eventHeap (http_world True) (Suc 0)) = [EdgeOp (opId (ev_event (eventHeap (http_world True) 0)))]"
  by (simp_all add: world_defs build_defs Let_def)

lemma http_world_unsampled_skeleton:
  "isSkeleton (spanHeap (http_world False) (Suc 0))"
  "events_entry (spanHeap (http_world False) (Suc 0)) = 2"
  "events_exit (spanHeap (http_world False) (Suc 0)) = 3"
  "skeleton (spanHeap (http_world False) 0) = Some (Suc 0)"
  "\<not> sampleFlag (ev_event (eventHeap (http_world False) 2))"
  "\<not> sampleFlag (ev_event (eventHeap (http_world False) 3))"
  "\<not> doSample (spanHeap (http_world False) 0)"
  "topSpan (spanHeap (http_world False) 0)"
  "kv (eventHeap (http_world False) 3) = Map.empty"
  by (simp_all add: world_defs build_defs Let_def)

section \<open>The claims\<close>

text \<open>
  C1. For every span on which \<open>runSync\<close> is invoked, exactly one entry report and
  exactly one exit report occur during that invocation, whether or not the wrapped
  function throws. The wrapped function is called once, in the world \<open>w2\<close> that
  \<open>runSync_enter\<close> leaves: there the report log is the log at the call of \<open>runSync\<close>
  plus one report, of the span's entry event, so \<open>enter\<close> has run before the function.
  Whatever the outcome \<open>res\<close> of the function (a return or a throw), it is the outcome of
  \<open>runSync\<close>, and the final report log is the log the function left plus one report, of
  the span's exit event.
\<close>

theorem runSync_reports_entry_and_exit_once:
  "(let (ctx, st, w2) = runSync_enter this w;
        (res, w3) = fn_call fn this None w2;
        (res', w') = runSync this fn w
    in reportLog w2 = reportLog w @ [(events_entry (spanHeap w this), bridgeAvailable w)]
       \<and> res' = res
       \<and> reportLog w' = reportLog w3 @ [(events_exit (spanHeap w3 this), bridgeAvailable w3)])"
  by (simp add: runSync_def Let_def case_prod_beta runSync_enter_frame exit_reportLog
        store_exit_frame finish_metrics_frame setExitError_frame
        split: sum.splits option.splits)

text \<open>
  C2, as amended. Constructing an entry span with a truthy name and unsampled settings
  succeeds and creates a Skeleton span, stored in the top span; three nested
  \<open>descend()\<close> calls (the first on the top span, each further one on the span the
  previous call returned) all return that same single object, the skeleton.
\<close>

theorem unsampled_descend_returns_skeleton:
  assumes "truthy nm" and "\<not> settings_sampled st"
  shows "\<exists>root k w1 w2 w3 w4.
           makeEntrySpan nm st kvp w = (Inr root, w1)
         \<and> skeleton (spanHeap w1 root) = Some k \<and> isSkeleton (spanHeap w1 k) \<and> k \<noteq> root
         \<and> descend root na da w1 = (Inr k, w2)
         \<and> descend k nb db w2 = (Inr k, w3)
         \<and> descend k nc dc w3 = (Inr k, w4)"
proof -
  have ne: "Suc (nextSpan w) \<noteq> nextSpan w" by simp
  note c = unsampled_descend_chain[OF assms, where kvp = kvp and w = w]
  from c(1,2,3) c(4)[of na da] c(5)[of nb db] c(6)[of nc dc] ne
  show ?thesis by blast
qed

text \<open>Witness for C2: a new unsampled trace named \<open>http\<close> in the empty world. The top
  span is at address 0 and its skeleton at address 1.\<close>

theorem unsampled_descend_returns_skeleton_witness:
  "truthy (Str ''http'') \<and> \<not> settings_sampled (new_trace False)
   \<and> (\<exists>root k w1 w2 w3 w4.
           makeEntrySpan (Str ''http'') (new_trace False) Undefined world0 = (Inr root, w1)
         \<and> skeleton (spanHeap w1 root) = Some k \<and> isSkeleton (spanHeap w1 k) \<and> k \<noteq> root
         \<and> descend root (Str ''a'') Undefined w1 = (Inr k, w2)
         \<and> descend k (Str ''b'') Undefined w2 = (Inr k, w3)
         \<and> descend k (Str ''c'') Undefined w3 = (Inr k, w4))
   \<and> skeleton (spanHeap (http_world False) 0) = Some 1
   \<and> fst (descend 0 (Str ''a'') Undefined (http_world False)) = Inr 1"
  using unsampled_descend_returns_skeleton [where nm = "Str ''http''" and st = "new_trace False"
          and kvp = Undefined and w = world0 and na = "Str ''a''" and da = Undefined
          and nb = "Str ''b''" and db = Undefined and nc = "Str ''c''" and dc = Undefined]
  by (simp add: settings_sampled_def new_trace_def descend_def http_world_unsampled_skeleton)

text \<open>
  Counterexample to C2 as stated: with the name \<open>""\<close> the construction does not
  succeed; \<open>Span.makeEntrySpan\<close> raises the constructor's TypeError, so there is no
  span to descend from.
\<close>

theorem makeEntrySpan_empty_name_throws:
  "fst (makeEntrySpan (Str []) (new_trace False) Undefined world0) =
     Inl (ErrObj TypeErrorClass ''invalid span name '')"
  by (simp add: makeEntrySpan_def Span_new_def Let_def case_prod_beta new_trace_def)

text \<open>
  C3, as amended. When the function wrapped by \<open>runSync\<close> throws, the thrown value is
  re-raised unchanged to the caller, after \<open>setExitError\<close> has been applied to it. The
  exit event then carries \<open>Span.toError\<close> of the thrown value if that is an error (the
  value is a string or an Error) and the ignore function is absent or returns a falsy
  value for it; in every other case (another kind of value, an ignore function that
  returns a truthy value or throws) nothing is attached and the exit event's error is
  what it was when the function threw.
\<close>

theorem runSync_rethrows_after_setExitError:
  assumes "fn_call fn this None (snd (snd (runSync_enter this w))) = (Inl thrown, w3)"
  shows "fst (runSync this fn w) = Inl thrown
       \<and> ev_error (eventHeap (snd (runSync this fn w)) (events_exit (spanHeap w3 this))) =
           (if truthy (toError thrown)
               \<and> (case ignoreErrorFn (spanHeap w3 this) of
                     None \<Rightarrow> True
                   | Some p \<Rightarrow> (case p (toError thrown) of
                                  Inr v \<Rightarrow> \<not> truthy v | Inl e \<Rightarrow> False))
            then toError thrown
            else ev_error (eventHeap w3 (events_exit (spanHeap w3 this))))"
  using runSync_throw[OF assms] by simp

text \<open>
  Witness for C3: \<open>function () { throw 'boom' }\<close> run on the top span of a new sampled
  trace, without an ignore function and with one that ignores every error. The string is
  re-raised both times; the exit event (address 1) carries \<open>new Error('boom')\<close> in the
  first run and no error in the second.
\<close>

theorem runSync_rethrows_after_setExitError_witness:
  "fn_call (fn_throw (Str ''boom'')) 0 None (snd (snd (runSync_enter 0 (http_world True)))) =
     (Inl (Str ''boom''), snd (snd (runSync_enter 0 (http_world True))))
   \<and> fst (runSync 0 (fn_throw (Str ''boom'')) (http_world True)) = Inl (Str ''boom'')
   \<and> ev_error (eventHeap (snd (runSync 0 (fn_throw (Str ''boom'')) (http_world True))) 1) =
       ErrObj ErrorClass ''boom''
   \<and> fst (runSync 0 (fn_throw (Str ''boom'')) (setIgnoreErrorFn 0 ignore_all (http_world True))) =
       Inl (Str ''boom'')
   \<and> ev_error (eventHeap (snd (runSync 0 (fn_throw (Str ''boom''))
                                  (setIgnoreErrorFn 0 ignore_all (http_world True)))) 1) =
       Undefined"
proof -
  let ?f = "fn_throw (Str ''boom'')"
  let ?v = "setIgnoreErrorFn 0 ignore_all (http_world True)"
  have c1: "fn_call ?f 0 None (snd (snd (runSync_enter 0 (http_world True)))) =
              (Inl (Str ''boom''), snd (snd (runSync_enter 0 (http_world True))))"
    and c2: "fn_call ?f 0 None (snd (snd (runSync_enter 0 ?v))) =
              (Inl (Str ''boom''), snd (snd (runSync_enter 0 ?v)))"
    by (rule fn_throw_call)+
  from runSync_rethrows_after_setExitError [OF c1] runSync_rethrows_after_setExitError [OF c2] c1
  show ?thesis
    by (simp add: runSync_enter_frame setIgnoreErrorFn_frame http_world_sampled_span
          ignore_all_def)
qed

text \<open>
  Counterexample to C3 as stated: \<open>function () { throw 42 }\<close>. The number is re-raised,
  but it is not attached to the exit event, whose error stays undefined.
\<close>

theorem runSync_thrown_number_not_attached:
  "fst (runSync 0 (fn_throw (Num 42)) (http_world True)) = Inl (Num 42)
   \<and> ev_error (eventHeap (snd (runSync 0 (fn_throw (Num 42)) (http_world True)))
                 (events_exit (spanHeap (http_world True) 0))) = Undefined"
proof -
  have c: "fn_call (fn_throw (Num 42)) 0 None (snd (snd (runSync_enter 0 (http_world True)))) =
             (Inl (Num 42), snd (snd (runSync_enter 0 (http_world True))))"
    by (rule fn_throw_call)
  from runSync_throw [OF c] show ?thesis
    by (simp add: runSync_enter_frame http_world_sampled_span)
qed


text \<open>
  C5. \<open>Span.prototype.exit\<close> adds exactly one extra edge, to the process-wide last
  event, if and only if that event exists, is not this span's own entry event, and the
  exit event is not flagged to skip edging; otherwise the exit event's edges stay as
  they were. The exit event is reported once in either case, and \<open>exit\<close> returns a
  world: it does not raise. In particular, when \<open>ao.lastEvent\<close> is null the edges of the
  exit event are unchanged.
\<close>

theorem exit_extra_edge:
  "(let ex = events_exit (spanHeap w this); w' = exit this data w
    in edges (eventHeap w' ex) =
         edges (eventHeap w ex) @
           (case lastEvent w of
              Some l \<Rightarrow> if l \<noteq> events_entry (spanHeap w this) \<and> \<not> ignore (eventHeap w ex)
                        then [EdgeEvent l] else []
            | None \<Rightarrow> [])
       \<and> reportLog w' = reportLog w @ [(ex, bridgeAvailable w)]
       \<and> (lastEvent w = None \<longrightarrow> edges (eventHeap w' ex) = edges (eventHeap w ex)))"
  by (simp add: Let_def exit_edges exit_reportLog)

text \<open>
  Witness for C5: the top span of a new sampled trace, exited while no event is active.
  Its exit event (address 1) is reported with its edges as constructed: the single edge
  to the entry event's operation identifier.
\<close>

theorem exit_extra_edge_witness:
  "lastEvent (http_world True) = None
   \<and> edges (eventHeap (exit 0 Undefined (http_world True)) 1) =
       [EdgeOp (opId (ev_event (eventHeap (http_world True) 0)))]
   \<and> reportLog (exit 0 Undefined (http_world True)) = [(1, True)]"
  using exit_extra_edge [of "http_world True" 0 Undefined]
  by (simp add: Let_def http_world_sampled_span)

text \<open>
  C6. \<open>run(fn)\<close> is \<open>runAsync(fn)\<close> exactly when \<open>fn\<close> declares one parameter, and
  \<open>runSync(fn)\<close> for every other number of parameters; the result of \<open>run\<close> is the
  result of the call it dispatches to.
\<close>

theorem run_dispatch_by_arity:
  "(fn_length fn = 1 \<longrightarrow> run this fn w = runAsync this fn w)
   \<and> (fn_length fn \<noteq> 1 \<longrightarrow> run this fn w = runSync this fn w)"
  by (simp add: run_def)

text \<open>Witness for C6: a function of one parameter and a function of none, run on the
  top span of a new sampled trace.\<close>

theorem run_dispatch_by_arity_witness:
  "fn_length (fn_one_param Undefined) = 1
   \<and> run 0 (fn_one_param Undefined) (http_world True) =
       runAsync 0 (fn_one_param Undefined) (http_world True)
   \<and> fn_length (fn_return Undefined) \<noteq> 1
   \<and> run 0 (fn_return Undefined) (http_world True) =
       runSync 0 (fn_return Undefined) (http_world True)"
  using run_dispatch_by_arity [of "fn_one_param Undefined" 0 "http_world True"]
        run_dispatch_by_arity [of "fn_return Undefined" 0 "http_world True"]
  by (simp add: fn_one_param_def fn_return_def)

text \<open>
  C7, as amended. \<open>getTransactionName()\<close> returns the custom transaction name if it is
  a non-empty string; else, if it is a function, the result of invoking it when that
  result is truthy, an error thrown by the invocation being caught; in every other case
  (no custom name, a falsy result, a throwing function, a value that is neither string
  nor function) the default name computed at creation, which is \<open>custom-<name>\<close> for
  every entry span that \<open>Span.makeEntrySpan\<close> has built. It does not raise.
\<close>

theorem getTransactionName_precedence:
  "fst (getTransactionName this w) =
     (let dflt = defaultTxName (spanHeap w this) in
      case customTxName (spanHeap w this) of
        TxValue v \<Rightarrow> (case v of Str x \<Rightarrow> if x \<noteq> [] then Str x else dflt | _ \<Rightarrow> dflt)
      | TxFunction res \<Rightarrow>
          (case res of Inr v \<Rightarrow> if truthy v then v else dflt | Inl thrown \<Rightarrow> dflt))
   \<and> (makeEntrySpan nm st kvp w0 = (Inr s, w1) \<longrightarrow>
        defaultTxName (spanHeap w1 s) = Str (''custom-'' @ to_string nm))"
proof
  show "fst (getTransactionName this w) =
     (let dflt = defaultTxName (spanHeap w this) in
      case customTxName (spanHeap w this) of
        TxValue v \<Rightarrow> (case v of Str x \<Rightarrow> if x \<noteq> [] then Str x else dflt | _ \<Rightarrow> dflt)
      | TxFunction res \<Rightarrow>
          (case res of Inr v \<Rightarrow> if truthy v then v else dflt | Inl thrown \<Rightarrow> dflt))"
    by (simp add: getTransactionName_def Let_def split: custom_tx.splits jsval.splits sum.splits)
  show "makeEntrySpan nm st kvp w0 = (Inr s, w1) \<longrightarrow>
        defaultTxName (spanHeap w1 s) = Str (''custom-'' @ to_string nm)"
  proof
    assume a: "makeEntrySpan nm st kvp w0 = (Inr s, w1)"
    have t: "truthy nm"
    proof (rule ccontr)
      assume "\<not> truthy nm"
      from makeEntrySpan_falsy[OF this, of st kvp w0] a show False by simp
    qed
    from makeEntrySpan_truthy(1,4)[OF t, of st kvp w0] a show
      "defaultTxName (spanHeap w1 s) = Str (''custom-'' @ to_string nm)" by simp
  qed
qed

text \<open>
  Witness for C7: the top span of a new sampled trace named \<open>http\<close>. Without a custom
  name, and with a custom function that throws, the transaction name is the default
  \<open>custom-http\<close>; with the custom string \<open>checkout\<close> it is that string.
\<close>

theorem getTransactionName_precedence_witness:
  "makeEntrySpan (Str ''http'') (new_trace True) Undefined world0 = (Inr 0, http_world True)
   \<and> defaultTxName (spanHeap (http_world True) 0) = Str ''custom-http''
   \<and> fst (getTransactionName 0 (http_world True)) = Str ''custom-http''
   \<and> fst (getTransactionName 0 (setCustomTxName 0 (TxFunction (Inl (Str ''x''))) (http_world True))) =
       Str ''custom-http''
   \<and> fst (getTransactionName 0 (setCustomTxName 0 (TxValue (Str ''checkout'')) (http_world True))) =
       Str ''checkout''"
proof -
  have m: "makeEntrySpan (Str ''http'') (new_trace True) Undefined world0 = (Inr 0, http_world True)"
    using makeEntrySpan_truthy(1)[of "Str ''http''" "new_trace True" Undefined world0]
    by (simp add: prod_eq_iff http_world_def world0_def)
  from getTransactionName_precedence [of 0 "http_world True" "Str ''http''" "new_trace True"
         Undefined world0 0 "http_world True"]
       getTransactionName_precedence [of 0
         "setCustomTxName 0 (TxFunction (Inl (Str ''x''))) (http_world True)"
         "Str ''http''" "new_trace True" Undefined world0 0 "http_world True"]
       getTransactionName_precedence [of 0
         "setCustomTxName 0 (TxValue (Str ''checkout'')) (http_world True)"
         "Str ''http''" "new_trace True" Undefined world0 0 "http_world True"]
       m
  show ?thesis
    by (simp add: http_world_sampled_span setCustomTxName_def upd_span_def)
qed

text \<open>
  Counterexample to C7 as stated: the custom name is a function that returns the empty
  string. The result is not the result of invoking it but the default name.
\<close>

theorem getTransactionName_falsy_function_result:
  "fst (getTransactionName 0 (setCustomTxName 0 (TxFunction (Inr (Str []))) (http_world True))) =
     Str ''custom-http''
   \<and> Str ''custom-http'' \<noteq> Str []"
  by (simp add: getTransactionName_def setCustomTxName_def upd_span_def Let_def
        http_world_sampled_span)

text \<open>
  C8. For every name, settings and data: constructing a Span with a falsy name raises a
  TypeError for the invalid name to the caller, and the world is left as it was, so no
  entry or exit event has been built (and the span is not counted as created).
\<close>

theorem Span_new_falsy_name_throws:
  "\<not> truthy nm \<Longrightarrow>
     Span_new nm settings data w =
       (Inl (ErrObj TypeErrorClass (''invalid span name '' @ to_string nm)), w)"
  by (simp add: Span_new_def)

text \<open>Witness for C8: \<open>new Span(undefined, {traceTaskId}, {File: 'a'})\<close> in a world
  without events.\<close>

theorem Span_new_falsy_name_throws_witness:
  "\<not> truthy Undefined
   \<and> Span_new Undefined \<lparr>traceTaskId = Some \<lparr>taskId = 7, opId = 8, sampleFlag = True\<rparr>, edge = None\<rparr>
        (Obj [(''File'', Str ''a'')]) world0 =
       (Inl (ErrObj TypeErrorClass ''invalid span name undefined''), world0)
   \<and> nextEvent world0 = 0"
  using Span_new_falsy_name_throws [of Undefined
          "\<lparr>traceTaskId = Some \<lparr>taskId = 7, opId = 8, sampleFlag = True\<rparr>, edge = None\<rparr>"
          "Obj [(''File'', Str ''a'')]" world0]
  by (simp add: world0_def)

text \<open>
  C9, as amended. \<open>Span.sendNonHttpSpan(txname, durationMicros, error)\<close> passes the
  name, the duration and the boolean error flag to the reporter and returns the
  reporter's answer when that is a non-empty string; otherwise it logs the answer and
  returns the original \<open>txname\<close> if that is truthy, and the string \<open>unknown\<close> if it is
  not.
\<close>

theorem sendNonHttpSpan_result:
  "(let args = \<lparr>arg_txname = txname, arg_duration = duration, arg_error = truthy err\<rparr>;
        reply = nonHttpReply w args;
        (r, w') = sendNonHttpSpan txname duration err w
    in nonHttpCalls w' = nonHttpCalls w @ [args]
       \<and> (if (case reply of Str x \<Rightarrow> x \<noteq> [] | _ \<Rightarrow> False)
          then r = reply \<and> logged w' = logged w
          else r = (if truthy txname then txname else Str ''unknown'')
               \<and> logged w' = logged w @ [(LogError, ''sendNonHttpSpan() code '' @ to_string reply)]))"
  by (simp add: sendNonHttpSpan_def Let_def log_msg_def split: jsval.splits)

text \<open>
  Witness for C9: with a reporter that answers \<open>final\<close> the result is \<open>final\<close> and
  nothing is logged; with one that answers with a code the result is the original name,
  the reporter having received the name, the duration and the error flag \<open>true\<close>.
\<close>

theorem sendNonHttpSpan_result_witness:
  "fst (sendNonHttpSpan (Str ''custom-http'') (Num 1500) Undefined world_final) = Str ''final''
   \<and> logged (snd (sendNonHttpSpan (Str ''custom-http'') (Num 1500) Undefined world_final)) = []
   \<and> fst (sendNonHttpSpan (Str ''custom-http'') (Num 1500) (Str ''failed'') world0) =
       Str ''custom-http''
   \<and> nonHttpCalls (snd (sendNonHttpSpan (Str ''custom-http'') (Num 1500) (Str ''failed'') world0)) =
       [\<lparr>arg_txname = Str ''custom-http'', arg_duration = Num 1500, arg_error = True\<rparr>]"
  using sendNonHttpSpan_result [of "Str ''custom-http''" "Num 1500" Undefined world_final]
        sendNonHttpSpan_result [of "Str ''custom-http''" "Num 1500" "Str ''failed''" world0]
  by (simp add: Let_def case_prod_beta world_final_def world0_def reply_final_def reply_code_def)

text \<open>
  Counterexample to C9 as stated: the name is the empty string and the reporter answers
  with a code. The result is \<open>unknown\<close>, not the original name.
\<close>

theorem sendNonHttpSpan_falsy_name_gives_unknown:
  "fst (sendNonHttpSpan (Str []) (Num 5) Undefined world0) = Str ''unknown''
   \<and> Str ''unknown'' \<noteq> Str []"
  by (simp add: sendNonHttpSpan_def world0_def reply_code_def log_msg_def)

text \<open>
  C10. \<open>descend(name, data)\<close> on a sampled span while \<open>ao.lastEvent\<close> is null does not
  construct a child span: it raises a TypeError to the caller, from reading
  \<open>last.event\<close>, and leaves the world as it was.
\<close>

theorem descend_sampled_without_last_event_throws:
  "doSample (spanHeap w this) \<Longrightarrow> lastEvent w = None \<Longrightarrow>
     descend this nm data w =
       (Inl (ErrObj TypeErrorClass ''Cannot read property event of null''), w)"
  by (simp add: descend_def)

text \<open>Witness for C10: the top span of a new sampled trace, before any event is
  active.\<close>

theorem descend_sampled_without_last_event_throws_witness:
  "doSample (spanHeap (http_world True) 0) \<and> lastEvent (http_world True) = None
   \<and> descend 0 (Str ''fs'') Undefined (http_world True) =
       (Inl (ErrObj TypeErrorClass ''Cannot read property event of null''), http_world True)"
  using descend_sampled_without_last_event_throws [of "http_world True" 0 "Str ''fs''" Undefined]
  by (simp add: http_world_sampled_span)

end
